theory Spec2Isabelle
  imports Complex_Main
begin

section \<open>The IRT temperature dashboard (graphing_code_dash_v3.py)\<close>

text \<open>
  The program loads a spreadsheet of infrared-thermometer readings, resamples three
  channels to 5-minute means at import time, and serves two callbacks that turn a
  selection of channel names into a chart (and, in the second tab, a text summary of a
  statistical comparison).

  The embedding follows the module top to bottom. Numbers are modelled as reals: a cell of
  a table is \<open>Some r\<close> or \<open>None\<close> (pandas' NaN / NA, a missing value); rounding
  of binary floating point is not modelled. Timestamps are whole minutes since the epoch
  (the format \<open>%m/%d/%Y %H:%M\<close> has no finer unit). The functions of pandas, scipy and
  plotly that the module calls are written out with the meaning their defaults give them;
  the two distribution routines the source only reaches through scipy and statsmodels
  (Student's t distribution function, and the repeated-measures analysis with its printed
  table) are parameters of the callbacks.
\<close>

subsection \<open>Data model\<close>

type_synonym cell = "real option"
type_synonym timestamp = int

datatype error = KeyError string | ValueError string

text \<open>What \<open>pd.read_excel\<close> returns: the textual TIMESTAMP column and the numeric columns.\<close>

record raw_table =
  TIMESTAMP :: "string list"
  value_cols :: "(string \<times> cell list) list"

text \<open>A DataFrame whose index is the timestamp.\<close>

record dataframe =
  index :: "timestamp list"
  columns :: "(string \<times> cell list) list"

text \<open>The module's two global tables.\<close>

record globals =
  df :: dataframe
  df_resampled :: dataframe

definition CHANNELS :: "string list" where
  "CHANNELS = [''TempC_target_1331'', ''TempC_target_1370'', ''TempC_target_1376'']"

text \<open>\<open>frame[name]\<close>: the column, or KeyError.\<close>

definition getitem :: "dataframe \<Rightarrow> string \<Rightarrow> cell list option" where
  "getitem frame nm = map_of (columns frame) nm"

text \<open>\<open>frame[[n1, n2, ...]]\<close>: the sub-frame with these columns in this order.\<close>

fun getcols :: "dataframe \<Rightarrow> string list \<Rightarrow> error + (string \<times> cell list) list" where
  "getcols frame [] = Inr []"
| "getcols frame (nm # rest) =
     (case getitem frame nm of
        None \<Rightarrow> Inl (KeyError nm)
      | Some vs \<Rightarrow> (case getcols frame rest of
                    Inl e \<Rightarrow> Inl e
                  | Inr cs \<Rightarrow> Inr ((nm, vs) # cs)))"

definition getitems :: "dataframe \<Rightarrow> string list \<Rightarrow> error + dataframe" where
  "getitems frame nms =
     (case getcols frame nms of
        Inl e \<Rightarrow> Inl e
      | Inr cs \<Rightarrow> Inr \<lparr>index = index frame, columns = cs\<rparr>)"

subsection \<open>Loading and resampling (module lines 10 to 22)\<close>

text \<open>
  \<open>pd.to_datetime(df['TIMESTAMP'], format=...)\<close>: every entry is parsed, and one entry
  that does not match the format aborts the import. The parser itself is the parameter
  \<open>strptime\<close>.
\<close>

fun to_datetime :: "(string \<Rightarrow> timestamp option) \<Rightarrow> string list \<Rightarrow> error + timestamp list" where
  "to_datetime strptime [] = Inr []"
| "to_datetime strptime (s # rest) =
     (case strptime s of
        None \<Rightarrow> Inl (ValueError s)
      | Some t \<Rightarrow> (case to_datetime strptime rest of
                   Inl e \<Rightarrow> Inl e
                 | Inr ts \<Rightarrow> Inr (t # ts)))"

text \<open>\<open>df.set_index('TIMESTAMP')\<close>: the parsed column becomes the index.\<close>

definition set_index :: "timestamp list \<Rightarrow> raw_table \<Rightarrow> dataframe" where
  "set_index ts raw = \<lparr>index = ts, columns = value_cols raw\<rparr>"

text \<open>\<open>df.replace(old, new)\<close>: every cell of every column; the index is not a column.\<close>

definition replace_cell :: "real \<Rightarrow> cell \<Rightarrow> cell \<Rightarrow> cell" where
  "replace_cell old new v = (if v = Some old then new else v)"

definition replace :: "real \<Rightarrow> cell \<Rightarrow> dataframe \<Rightarrow> dataframe" where
  "replace old new frame =
     frame\<lparr>columns := map (\<lambda>(nm, vs). (nm, map (replace_cell old new) vs)) (columns frame)\<rparr>"

text \<open>
  \<open>.resample('5T')\<close>: a timestamp belongs to the 5-minute bucket that starts at the
  multiple of 5 minutes at or before it; the buckets of the result run from the bucket of
  the earliest timestamp to the bucket of the latest one, without gaps.
\<close>

definition bucket :: "timestamp \<Rightarrow> timestamp" where
  "bucket t = 5 * (t div 5)"

definition bins :: "timestamp list \<Rightarrow> timestamp list" where
  "bins ix =
     (if ix = [] then []
      else map (\<lambda>k. bucket (Min (set ix)) + 5 * int k)
             [0 ..< Suc (nat ((bucket (Max (set ix)) - bucket (Min (set ix))) div 5))])"

text \<open>\<open>.mean()\<close> of a group: the mean of the values that are not missing, NaN if none.\<close>

definition present :: "cell list \<Rightarrow> real list" where
  "present vs = map the (filter (\<lambda>v. v \<noteq> None) vs)"

definition mean :: "cell list \<Rightarrow> cell" where
  "mean vs =
     (if present vs = [] then None
      else Some (sum_list (present vs) / real (length (present vs))))"

definition group :: "timestamp list \<Rightarrow> cell list \<Rightarrow> timestamp \<Rightarrow> cell list" where
  "group ix vs b = map snd (filter (\<lambda>(t, v). bucket t = b) (zip ix vs))"

definition resample_5T_mean :: "dataframe \<Rightarrow> dataframe" where
  "resample_5T_mean frame =
     \<lparr>index = bins (index frame),
      columns = map (\<lambda>(nm, vs). (nm, map (\<lambda>b. mean (group (index frame) vs b)) (bins (index frame))))
                  (columns frame)\<rparr>"

text \<open>The module's top level, from the table read from the file to the two globals.\<close>

definition load :: "(string \<Rightarrow> timestamp option) \<Rightarrow> raw_table \<Rightarrow> error + globals" where
  "load strptime raw =
     (case to_datetime strptime (TIMESTAMP raw) of
        Inl e \<Rightarrow> Inl e
      | Inr ts \<Rightarrow>
          (let frame = replace (- 9999) None (set_index ts raw) in
           case getitems frame CHANNELS of
             Inl e \<Rightarrow> Inl e
           | Inr sub \<Rightarrow> Inr \<lparr>df = frame, df_resampled = resample_5T_mean sub\<rparr>))"

subsection \<open>Charts (plotly)\<close>

record error_bar =
  eb_type :: string
  eb_array :: "cell list"
  eb_visible :: bool
  eb_color :: string
  eb_thickness :: real
  eb_width :: real

record scatter =
  trace_x :: "timestamp list"
  trace_y :: "cell list"
  trace_mode :: string
  trace_name :: string
  error_y :: "error_bar option"

record layout =
  title :: string
  xaxis_title :: string
  yaxis_title :: string
  template :: string
  hovermode :: string
  font_family :: string
  font_size :: nat

record figure =
  fig_data :: "scatter list"
  fig_layout :: "layout option"

text \<open>\<open>go.Figure()\<close>, \<open>fig.add_trace\<close> and \<open>fig.update_layout\<close>.\<close>

definition Figure :: figure where
  "Figure = \<lparr>fig_data = [], fig_layout = None\<rparr>"

definition add_trace :: "figure \<Rightarrow> scatter \<Rightarrow> figure" where
  "add_trace fig tr = fig\<lparr>fig_data := fig_data fig @ [tr]\<rparr>"

definition update_layout :: "figure \<Rightarrow> layout \<Rightarrow> figure" where
  "update_layout fig lo = fig\<lparr>fig_layout := Some lo\<rparr>"

text \<open>The y-axis title is \<open>Temperature (\<degree>C)\<close>; the degree sign is its two UTF-8 bytes.\<close>

definition temperature_axis_title :: string where
  "temperature_axis_title = ''Temperature ('' @ [CHR 0xC2, CHR 0xB0] @ ''C)''"

subsection \<open>The first callback: \<open>update_temp_plot\<close> (lines 73 to 94)\<close>

text \<open>
  The callbacks read the global \<open>df_resampled\<close>. Each takes the globals and returns
  them beside its result, so that a write to the shared tables would show in the model.
  The \<open>for\<close> loop is the recursion over the selection; a name that is not a column makes
  \<open>df_resampled[sensor]\<close> raise KeyError.
\<close>

fun temp_traces :: "string list \<Rightarrow> figure \<Rightarrow> globals \<Rightarrow> (error + figure) \<times> globals" where
  "temp_traces [] fig g = (Inr fig, g)"
| "temp_traces (sensor # rest) fig g =
     (case getitem (df_resampled g) sensor of
        None \<Rightarrow> (Inl (KeyError sensor), g)
      | Some ys \<Rightarrow>
          temp_traces rest
            (add_trace fig
               \<lparr>trace_x = index (df_resampled g), trace_y = ys,
                trace_mode = ''lines+markers'', trace_name = sensor, error_y = None\<rparr>)
            g)"

definition temp_layout :: layout where
  "temp_layout =
     \<lparr>title = ''IRT Temperatures (Every 5 Minutes)'', xaxis_title = ''Timestamp'',
      yaxis_title = temperature_axis_title, template = ''plotly_dark'', hovermode = ''x'',
      font_family = ''Open Sans'', font_size = 14\<rparr>"

definition update_temp_plot :: "string list \<Rightarrow> globals \<Rightarrow> (error + figure) \<times> globals" where
  "update_temp_plot selected_sensors g =
     (case temp_traces selected_sensors Figure g of
        (Inl e, g') \<Rightarrow> (Inl e, g')
      | (Inr fig, g') \<Rightarrow> (Inr (update_layout fig temp_layout), g'))"

subsection \<open>Standard deviations (pandas)\<close>

text \<open>
  \<open>Series.std()\<close>: the sample standard deviation (divisor \<open>n - 1\<close>) of the values that
  are not missing, NaN when fewer than two are left.
\<close>

definition std :: "cell list \<Rightarrow> cell" where
  "std vs =
     (let xs = present vs; n = length xs in
      if n < 2 then None
      else (let m = sum_list xs / real n in
            Some (sqrt (sum_list (map (\<lambda>x. (x - m)\<^sup>2) xs) / real (n - 1)))))"

text \<open>
  \<open>Series.rolling(window=w).std()\<close>: position \<open>i\<close> looks at the window of the last
  \<open>w\<close> positions up to \<open>i\<close> (fewer at the start of the series); \<open>min_periods\<close>
  defaults to \<open>w\<close>, so a window holding fewer than \<open>w\<close> values that are not missing
  gives NaN.
\<close>

definition window :: "nat \<Rightarrow> cell list \<Rightarrow> nat \<Rightarrow> cell list" where
  "window w vs i = drop (Suc i - w) (take (Suc i) vs)"

definition rolling_std :: "nat \<Rightarrow> cell list \<Rightarrow> cell list" where
  "rolling_std w vs =
     map (\<lambda>i. if length (present (window w vs i)) < w then None else std (window w vs i))
       [0 ..< length vs]"

subsection \<open>The paired t-test (scipy) and number formatting\<close>

datatype pyfloat = Finite real | NaN | PosInf | NegInf

text \<open>
  \<open>stats.ttest_rel(a, b)\<close> with its defaults (\<open>nan_policy='propagate'\<close>, two-sided):
  the arrays must have one length; a NaN in either makes both results NaN; otherwise the
  statistic is the mean of the differences over its standard error, with \<open>n - 1\<close>
  degrees of freedom, and the p-value is twice the distribution function of Student's t
  at \<open>- |t|\<close>. Division by a zero standard error follows IEEE: \<open>0/0\<close> is NaN and
  \<open>x/0\<close> is an infinity, whose p-value is 0. The distribution function is the
  parameter \<open>stdtr\<close> (degrees of freedom first, as \<open>scipy.special.stdtr\<close>).
\<close>

definition ttest_rel ::
  "(nat \<Rightarrow> real \<Rightarrow> real) \<Rightarrow> cell list \<Rightarrow> cell list \<Rightarrow> error + pyfloat \<times> pyfloat" where
  "ttest_rel stdtr a b =
     (if length a \<noteq> length b then Inl (ValueError ''unequal length arrays'')
      else if None \<in> set a \<or> None \<in> set b then Inr (NaN, NaN)
      else
        (let d = map2 (\<lambda>u v. the u - the v) a b;
             n = length d in
         if n < 2 then Inr (NaN, NaN)
         else
           (let dm = sum_list d / real n;
                v = sum_list (map (\<lambda>x. (x - dm)\<^sup>2) d) / real (n - 1);
                denom = sqrt (v / real n) in
            if denom = 0 then
              (if dm = 0 then Inr (NaN, NaN)
               else if 0 < dm then Inr (PosInf, Finite 0)
               else Inr (NegInf, Finite 0))
            else Inr (Finite (dm / denom),
                      Finite (2 * stdtr (n - 1) (- \<bar>dm / denom\<bar>))))))"

text \<open>
  The format specification \<open>.4f\<close>: a finite number is rounded to the nearest multiple of
  \<open>0.0001\<close> (a tie goes to the even one) and written with its sign, its integer digits,
  a point and four digits; NaN and the infinities are written \<open>nan\<close>, \<open>inf\<close> and
  \<open>-inf\<close>.
\<close>

definition round_half_even :: "real \<Rightarrow> int" where
  "round_half_even r =
     (let f = \<lfloor>r\<rfloor> in
      if r - of_int f < 1 / 2 then f
      else if 1 / 2 < r - of_int f then f + 1
      else if even f then f else f + 1)"

definition digit_char :: "nat \<Rightarrow> char" where
  "digit_char d = ''0123456789'' ! d"

function digits :: "nat \<Rightarrow> string" where
  "digits n = (if n < 10 then [digit_char n] else digits (n div 10) @ [digit_char (n mod 10)])"
  by pat_completeness auto
termination
  by (relation "measure id") auto

definition fixed4 :: "real \<Rightarrow> string" where
  "fixed4 r =
     (let q = nat (round_half_even (\<bar>r\<bar> * 10000)) in
      (if r < 0 then ''-'' else '''') @ digits (q div 10000) @ ''.'' @
      [digit_char (q div 1000 mod 10), digit_char (q div 100 mod 10),
       digit_char (q div 10 mod 10), digit_char (q mod 10)])"

fun format_4f :: "pyfloat \<Rightarrow> string" where
  "format_4f (Finite r) = fixed4 r"
| "format_4f NaN = ''nan''"
| "format_4f PosInf = ''inf''"
| "format_4f NegInf = ''-inf''"

definition paired_text :: "string \<Rightarrow> string \<Rightarrow> pyfloat \<Rightarrow> pyfloat \<Rightarrow> string" where
  "paired_text s0 s1 t_stat p_value =
     ''Paired t-test between '' @ s0 @ '' and '' @ s1 @ '':'' @ [CHR 0x0A] @
     ''t-stat = '' @ format_4f t_stat @ '', p-value = '' @ format_4f p_value"

subsection \<open>Long form (pandas \<open>melt\<close>)\<close>

record long_frame =
  id_name :: string
  var_name :: string
  value_name :: string
  long_rows :: "(timestamp \<times> string \<times> cell) list"

text \<open>
  \<open>frame.reset_index().melt(id_vars=['TIMESTAMP'], var_name=..., value_name=...)\<close>:
  the index becomes the column TIMESTAMP, and the columns are stacked one after the
  other, one row for each timestamp of each column.
\<close>

definition melt :: "dataframe \<Rightarrow> string \<Rightarrow> string \<Rightarrow> long_frame" where
  "melt frame vn valn =
     \<lparr>id_name = ''TIMESTAMP'', var_name = vn, value_name = valn,
      long_rows = concat (map (\<lambda>(nm, vs). map (\<lambda>(t, v). (t, nm, v)) (zip (index frame) vs))
                            (columns frame))\<rparr>"

subsection \<open>The second callback: \<open>update_errorbars_plot\<close> (lines 102 to 153)\<close>

fun errorbar_traces :: "string list \<Rightarrow> figure \<Rightarrow> globals \<Rightarrow> (error + figure) \<times> globals" where
  "errorbar_traces [] fig g = (Inr fig, g)"
| "errorbar_traces (sensor # rest) fig g =
     (case getitem (df_resampled g) sensor of
        None \<Rightarrow> (Inl (KeyError sensor), g)
      | Some ys \<Rightarrow>
          (let df_std = std ys;
               error_bars = rolling_std 5 ys in
           errorbar_traces rest
             (add_trace fig
                \<lparr>trace_x = index (df_resampled g), trace_y = ys,
                 trace_mode = ''lines+markers'', trace_name = sensor,
                 error_y = Some \<lparr>eb_type = ''data'', eb_array = error_bars, eb_visible = True,
                                 eb_color = ''gray'', eb_thickness = 1.5, eb_width = 3\<rparr>\<rparr>)
             g))"

text \<open>
  Lines 129 to 141. The repeated-measures analysis, fitted and printed
  (\<open>str(AnovaRM(data, depvar, subject, within=...).fit())\<close>), is the parameter
  \<open>anova_rm\<close>: it takes the long table, the name of the dependent variable, the name of
  the subject column and the within-subject factors, and returns the text or fails.
\<close>

definition statistical_tests ::
  "(nat \<Rightarrow> real \<Rightarrow> real) \<Rightarrow> (long_frame \<Rightarrow> string \<Rightarrow> string \<Rightarrow> string list \<Rightarrow> error + string) \<Rightarrow>
   string list \<Rightarrow> globals \<Rightarrow> (error + string) \<times> globals" where
  "statistical_tests stdtr anova_rm selected_sensors g =
     (if length selected_sensors = 2 then
        (case getitem (df_resampled g) (selected_sensors ! 0) of
           None \<Rightarrow> (Inl (KeyError (selected_sensors ! 0)), g)
         | Some a \<Rightarrow>
             (case getitem (df_resampled g) (selected_sensors ! 1) of
                None \<Rightarrow> (Inl (KeyError (selected_sensors ! 1)), g)
              | Some b \<Rightarrow>
                  (case ttest_rel stdtr a b of
                     Inl e \<Rightarrow> (Inl e, g)
                   | Inr (t_stat, p_value) \<Rightarrow>
                       (Inr (paired_text (selected_sensors ! 0) (selected_sensors ! 1)
                               t_stat p_value), g))))
      else if 2 < length selected_sensors then
        (case getitems (df_resampled g) selected_sensors of
           Inl e \<Rightarrow> (Inl e, g)
         | Inr sub \<Rightarrow>
             (anova_rm (melt sub ''Sensor'' ''Temperature'')
                ''Temperature'' ''TIMESTAMP'' [''Sensor''], g))
      else (Inr '''', g))"

definition errorbars_layout :: layout where
  "errorbars_layout =
     \<lparr>title = ''IRT Temperatures with Error Bars (Every 5 Minutes)'',
      xaxis_title = ''Timestamp'', yaxis_title = temperature_axis_title,
      template = ''plotly_dark'', hovermode = ''x'',
      font_family = ''Open Sans'', font_size = 14\<rparr>"

definition update_errorbars_plot ::
  "(nat \<Rightarrow> real \<Rightarrow> real) \<Rightarrow> (long_frame \<Rightarrow> string \<Rightarrow> string \<Rightarrow> string list \<Rightarrow> error + string) \<Rightarrow>
   string list \<Rightarrow> globals \<Rightarrow> (error + figure \<times> string) \<times> globals" where
  "update_errorbars_plot stdtr anova_rm selected_sensors g =
     (case errorbar_traces selected_sensors Figure g of
        (Inl e, g1) \<Rightarrow> (Inl e, g1)
      | (Inr fig, g1) \<Rightarrow>
          (case statistical_tests stdtr anova_rm selected_sensors g1 of
             (Inl e, g2) \<Rightarrow> (Inl e, g2)
           | (Inr anova_results_text, g2) \<Rightarrow>
               (Inr (update_layout fig errorbars_layout, anova_results_text), g2)))"

subsection \<open>Well-formed tables and tables on the 5-minute grid\<close>

text \<open>Every column of a DataFrame has one value for each row of the index.\<close>

definition wf_frame :: "dataframe \<Rightarrow> bool" where
  "wf_frame frame = list_all (\<lambda>(nm, vs). length vs = length (index frame)) (columns frame)"

text \<open>
  A table is on the 5-minute grid when its index starts at a multiple of 5 minutes and
  has one row for each 5-minute step from there on, which is the form resampling gives.
\<close>

definition on_grid :: "dataframe \<Rightarrow> bool" where
  "on_grid frame =
     (wf_frame frame \<and>
      (case index frame of
         [] \<Rightarrow> True
       | t0 # _ \<Rightarrow> t0 mod 5 = 0 \<and>
           index frame = map (\<lambda>k. t0 + 5 * int k) [0 ..< length (index frame)]))"

subsection \<open>Small tables for the examples\<close>

definition example_frame :: dataframe where
  "example_frame =
     \<lparr>index = [1, 3, 12], columns = [(''TempC_target_1331'', [Some 1, Some 3, Some 5])]\<rparr>"

definition example_grid_frame :: dataframe where
  "example_grid_frame =
     \<lparr>index = [0, 5, 10], columns = [(''TempC_target_1331'', [Some 2, None, Some 5])]\<rparr>"

subsection \<open>The series a callback adds for one channel\<close>

definition temp_trace :: "globals \<Rightarrow> string \<Rightarrow> scatter" where
  "temp_trace g sensor =
     \<lparr>trace_x = index (df_resampled g), trace_y = the (getitem (df_resampled g) sensor),
      trace_mode = ''lines+markers'', trace_name = sensor, error_y = None\<rparr>"

definition errorbar_trace :: "globals \<Rightarrow> string \<Rightarrow> scatter" where
  "errorbar_trace g sensor =
     \<lparr>trace_x = index (df_resampled g), trace_y = the (getitem (df_resampled g) sensor),
      trace_mode = ''lines+markers'', trace_name = sensor,
      error_y = Some \<lparr>eb_type = ''data'',
                       eb_array = rolling_std 5 (the (getitem (df_resampled g) sensor)),
                       eb_visible = True, eb_color = ''gray'', eb_thickness = 1.5,
                       eb_width = 3\<rparr>\<rparr>"

subsection \<open>A six-bucket example, loaded from a raw table\<close>

text \<open>
  A parser for the examples: it knows the few timestamps the example tables use, in
  minutes since 1970-01-01 00:00.
\<close>

definition example_strptime :: "string \<Rightarrow> timestamp option" where
  "example_strptime =
     map_of [(''01/01/2024 00:00'', 28401120), (''01/01/2024 00:02'', 28401122),
             (''01/01/2024 00:05'', 28401125), (''01/01/2024 00:10'', 28401130),
             (''01/01/2024 00:15'', 28401135), (''01/01/2024 00:20'', 28401140),
             (''01/01/2024 00:25'', 28401145), (''12/25/1969 01:21'', - 9999)]"


definition example_index :: "timestamp list" where
  "example_index = [28401120, 28401125, 28401130, 28401135, 28401140, 28401145]"

definition example_resampled :: dataframe where
  "example_resampled =
     \<lparr>index = example_index,
      columns =
        [(''TempC_target_1331'', [Some 20, Some 21, Some 22, Some 23, Some 24, Some 25]),
         (''TempC_target_1370'', [Some 20, Some 20, Some 20, Some 20, Some 20, Some 20]),
         (''TempC_target_1376'', [Some 19, None, Some 21, Some 21, Some 21, Some 23])]\<rparr>"

definition example_globals :: globals where
  "example_globals =
     \<lparr>df = \<lparr>index = example_index,
             columns =
               [(''TempC_target_1331'', [Some 20, Some 21, Some 22, Some 23, Some 24, Some 25]),
                (''TempC_target_1370'', [Some 20, Some 20, Some 20, Some 20, Some 20, Some 20]),
                (''TempC_target_1376'', [Some 19, None, Some 21, Some 21, Some 21, Some 23])]\<rparr>,
      df_resampled = example_resampled\<rparr>"

subsection \<open>Stand-ins for the library routines in the examples\<close>

text \<open>
  Student's t distribution function with one degree of freedom (the Cauchy distribution),
  which is the one a paired test over two buckets uses.
\<close>

definition student_t1 :: "nat \<Rightarrow> real \<Rightarrow> real" where
  "student_t1 \<nu> x = 1 / 2 + arctan x / pi"

text \<open>A stand-in for the repeated-measures analysis: it returns the heading of a table.\<close>

definition stub_anova_rm :: "long_frame \<Rightarrow> string \<Rightarrow> string \<Rightarrow> string list \<Rightarrow> error + string" where
  "stub_anova_rm long depvar subject factors = Inr (''Anova: '' @ depvar)"

subsection \<open>A table with one row, stamped 9999 minutes before the epoch\<close>

definition example_raw_1969 :: raw_table where
  "example_raw_1969 =
     \<lparr>TIMESTAMP = [''12/25/1969 01:21''],
      value_cols = [(''TempC_target_1331'', [Some 20]), (''TempC_target_1370'', [Some (- 9999)]),
                    (''TempC_target_1376'', [Some 21])]\<rparr>"

definition example_globals_1969 :: globals where
  "example_globals_1969 =
     \<lparr>df = \<lparr>index = [- 9999],
             columns = [(''TempC_target_1331'', [Some 20]), (''TempC_target_1370'', [None]),
                        (''TempC_target_1376'', [Some 21])]\<rparr>,
      df_resampled =
        \<lparr>index = [- 10000],
         columns = [(''TempC_target_1331'', [Some 20]), (''TempC_target_1370'', [None]),
                    (''TempC_target_1376'', [Some 21])]\<rparr>\<rparr>"

subsection \<open>The sentinel and the bucket means, as the specification words them\<close>



subsection \<open>A table whose first bucket holds the readings -9998 and -10000\<close>



subsection \<open>The buckets a test over complete pairs would use\<close>

text \<open>
  Modelled from the spec: the buckets on which a paired test ``operates only on buckets
  present in both'' channels are the pairs of values of which neither is missing.
\<close>

definition spec_complete_pairs :: "cell list \<Rightarrow> cell list \<Rightarrow> (real \<times> real) list" where
  "spec_complete_pairs a b =
     map (\<lambda>(u, v). (the u, the v)) (filter (\<lambda>(u, v). u \<noteq> None \<and> v \<noteq> None) (zip a b))"

subsection \<open>A two-bucket example\<close>

definition example_pair_globals :: globals where
  "example_pair_globals =
     \<lparr>df = \<lparr>index = [28401120, 28401125],
             columns = [(''TempC_target_1331'', [Some 20, Some 22]),
                        (''TempC_target_1370'', [Some 20, Some 20]),
                        (''TempC_target_1376'', [Some 21, None])]\<rparr>,
      df_resampled =
        \<lparr>index = [28401120, 28401125],
         columns = [(''TempC_target_1331'', [Some 20, Some 22]),
                    (''TempC_target_1370'', [Some 20, Some 20]),
                    (''TempC_target_1376'', [Some 21, None])]\<rparr>\<rparr>"

subsection \<open>Numbers written to four decimal places\<close>









section \<open>Properties\<close>

subsection \<open>The callbacks do not write the globals\<close>

lemma temp_traces_state: "snd (temp_traces sel fig g) = g"
  by (induction sel arbitrary: fig) (auto split: option.splits)

lemma errorbar_traces_state: "snd (errorbar_traces sel fig g) = g"
  by (induction sel arbitrary: fig) (auto split: option.splits simp: Let_def)

lemma statistical_tests_state: "snd (statistical_tests stdtr anova_rm sel g) = g"
  by (auto simp: statistical_tests_def split: option.splits sum.splits prod.splits)

text \<open>
  Claim C9: every call of either callback, for any selection, returns the globals it was
  given: the resampled table (and the loaded table) are only read.
\<close>

theorem callbacks_leave_globals:
  "snd (update_temp_plot sel g) = g \<and> snd (update_errorbars_plot stdtr anova_rm sel g) = g"
proof
  show "snd (update_temp_plot sel g) = g"
    using temp_traces_state [of sel Figure g]
    by (auto simp: update_temp_plot_def split: prod.splits sum.splits)
next
  obtain r g1 where tr: "errorbar_traces sel Figure g = (r, g1)"
    by (cases "errorbar_traces sel Figure g")
  then have g1: "g1 = g"
    using errorbar_traces_state [of sel Figure g] by simp
  obtain r2 g2 where st: "statistical_tests stdtr anova_rm sel g = (r2, g2)"
    by (cases "statistical_tests stdtr anova_rm sel g")
  then have g2: "g2 = g"
    using statistical_tests_state [of stdtr anova_rm sel g] by simp
  show "snd (update_errorbars_plot stdtr anova_rm sel g) = g"
    using tr g1 st g2
    by (cases r; cases r2) (auto simp: update_errorbars_plot_def)
qed

subsection \<open>Resampling a table that is on the grid\<close>

lemma bucket_multiple: "t mod 5 = 0 \<Longrightarrow> bucket t = t"
  by (auto simp: bucket_def)

lemma bucket_grid: "t0 mod 5 = 0 \<Longrightarrow> bucket (t0 + 5 * int k) = t0 + 5 * int k"
  by (rule bucket_multiple) presburger

lemma bucket_mod: "bucket t mod 5 = 0"
  by (simp add: bucket_def)

lemma grid_Min: "Min (set (map (\<lambda>k. t0 + 5 * int k) [0 ..< Suc n])) = t0"
  unfolding set_map set_upt by (rule Min_eqI) auto

lemma grid_Max: "Max (set (map (\<lambda>k. t0 + 5 * int k) [0 ..< Suc n])) = t0 + 5 * int n"
  unfolding set_map set_upt by (rule Max_eqI) auto

lemma bins_grid:
  assumes "t0 mod 5 = 0"
  shows "bins (map (\<lambda>k. t0 + 5 * int k) [0 ..< n]) = map (\<lambda>k. t0 + 5 * int k) [0 ..< n]"
proof (cases n)
  case 0
  then show ?thesis by (simp add: bins_def)
next
  case (Suc m)
  have b0: "bucket t0 = t0" using assms by (rule bucket_multiple)
  have bm: "bucket (t0 + 5 * int m) = t0 + 5 * int m" using assms by (rule bucket_grid)
  have ne: "map (\<lambda>k. t0 + 5 * int k) [0 ..< Suc m] \<noteq> []" by simp
  show ?thesis
    unfolding Suc bins_def if_not_P [OF ne] grid_Min grid_Max b0 bm
    by simp
qed

lemma bins_shape:
  "bins ix = map (\<lambda>k. bucket (Min (set ix)) + 5 * int k) [0 ..< length (bins ix)]"
  by (simp add: bins_def)

lemma group_Cons:
  "group (t # ix) (v # vs) b = (if bucket t = b then [v] else []) @ group ix vs b"
  by (simp add: group_def)

lemma group_none: "b \<notin> bucket ` set ix \<Longrightarrow> group ix vs b = []"
  by (auto simp: group_def filter_empty_conv dest!: set_zip_leftD)

text \<open>When no two rows share a bucket, the group of a row's bucket is that row alone.\<close>

lemma group_single:
  assumes "distinct (map bucket ix)" and "length vs = length ix" and "k < length ix"
  shows "group ix vs (bucket (ix ! k)) = [vs ! k]"
  using assms
proof (induction ix arbitrary: vs k)
  case Nil
  then show ?case by simp
next
  case (Cons t ix)
  then obtain v vs' where vs: "vs = v # vs'" by (cases vs) auto
  show ?case
  proof (cases k)
    case 0
    have "bucket t \<notin> bucket ` set ix" using Cons.prems(1) by auto
    then show ?thesis using 0 vs by (simp add: group_Cons group_none)
  next
    case (Suc j)
    have "ix ! j \<in> set ix" using Cons.prems Suc by simp
    moreover have "bucket t \<notin> bucket ` set ix" using Cons.prems(1) by simp
    ultimately have "bucket (ix ! j) \<noteq> bucket t" by (metis imageI)
    moreover have "group ix vs' (bucket (ix ! j)) = [vs' ! j]"
      using Cons.IH [of vs' j] Cons.prems Suc vs by simp
    ultimately show ?thesis using Suc vs by (simp add: group_Cons)
  qed
qed

lemma mean_single: "mean [v] = v"
  by (cases v) (simp_all add: mean_def present_def)

lemma resample_column_grid:
  assumes "t0 mod 5 = 0" and "length vs = n"
  shows "map (\<lambda>b. mean (group (map (\<lambda>k. t0 + 5 * int k) [0 ..< n]) vs b))
           (map (\<lambda>k. t0 + 5 * int k) [0 ..< n]) = vs"
proof (rule nth_equalityI)
  let ?ix = "map (\<lambda>k. t0 + 5 * int k) [0 ..< n]"
  show "length (map (\<lambda>b. mean (group ?ix vs b)) ?ix) = length vs"
    using assms by simp
  fix i assume "i < length (map (\<lambda>b. mean (group ?ix vs b)) ?ix)"
  then have i: "i < n" by simp
  have bk: "map bucket ?ix = ?ix"
    using bucket_grid [OF assms(1)] by simp
  have d: "distinct (map bucket ?ix)"
    unfolding bk by (simp add: distinct_map inj_on_def)
  have "group ?ix vs (bucket (?ix ! i)) = [vs ! i]"
    using group_single [OF d, of vs i] assms i by simp
  moreover have "bucket (?ix ! i) = ?ix ! i"
    using bucket_grid [OF assms(1), of i] i by simp
  ultimately show "map (\<lambda>b. mean (group ?ix vs b)) ?ix ! i = vs ! i"
    using i by (simp add: mean_single)
qed

lemma resample_fixes_grid:
  assumes "on_grid frame"
  shows "resample_5T_mean frame = frame"
proof (cases "index frame")
  case Nil
  have "list_all (\<lambda>(nm, vs). length vs = 0) (columns frame)"
    using assms Nil by (simp add: on_grid_def wf_frame_def)
  then have "map (\<lambda>(nm, vs). (nm, [])) (columns frame) = columns frame"
    by (induction "columns frame") (auto simp: list_all_iff intro!: map_idI)
  then show ?thesis using Nil by (simp add: resample_5T_mean_def bins_def)
next
  case (Cons t0 rest)
  define n where "n = length (index frame)"
  let ?ix = "map (\<lambda>k. t0 + 5 * int k) [0 ..< n]"
  have t0: "t0 mod 5 = 0" and ix: "index frame = ?ix"
    using assms Cons by (simp_all add: on_grid_def n_def)
  have wf: "\<And>nm vs. (nm, vs) \<in> set (columns frame) \<Longrightarrow> length vs = n"
    using assms by (auto simp: on_grid_def wf_frame_def list_all_iff n_def)
  have b: "bins (index frame) = index frame"
    unfolding ix by (rule bins_grid [OF t0])
  have "map (\<lambda>(nm, vs). (nm, map (\<lambda>b. mean (group (index frame) vs b)) (index frame)))
          (columns frame) = columns frame"
  proof (rule map_idI)
    fix c assume c: "c \<in> set (columns frame)"
    obtain nm vs where cv: "c = (nm, vs)" by (cases c)
    have len: "length vs = n" using wf c cv by simp
    have "map (\<lambda>b. mean (group ?ix vs b)) ?ix = vs"
      by (rule resample_column_grid [OF t0 len])
    then show "(case c of (nm, vs) \<Rightarrow>
                  (nm, map (\<lambda>b. mean (group (index frame) vs b)) (index frame))) = c"
      unfolding cv prod.case ix by (simp only:)
  qed
  then show ?thesis by (simp add: resample_5T_mean_def b)
qed

text \<open>What resampling returns is on the grid, whatever the table it is given.\<close>

lemma resample_on_grid: "on_grid (resample_5T_mean frame)"
proof -
  let ?b = "bins (index frame)"
  have wf: "wf_frame (resample_5T_mean frame)"
    by (auto simp: wf_frame_def resample_5T_mean_def list_all_iff)
  have idx: "index (resample_5T_mean frame) = ?b"
    by (simp add: resample_5T_mean_def)
  have "case ?b of [] \<Rightarrow> True
        | t0 # _ \<Rightarrow> t0 mod 5 = 0 \<and> ?b = map (\<lambda>k. t0 + 5 * int k) [0 ..< length ?b]"
  proof (cases ?b)
    case Nil
    then show ?thesis by simp
  next
    case (Cons t0 rest)
    have t0: "t0 = bucket (Min (set (index frame)))"
      using Cons by (auto simp: bins_def upt_conv_Cons split: if_splits simp del: upt_Suc)
    have "?b = map (\<lambda>k. t0 + 5 * int k) [0 ..< length ?b]"
      unfolding t0 by (rule bins_shape)
    then show ?thesis unfolding Cons list.case t0 using bucket_mod by blast
  qed
  then show ?thesis using wf unfolding on_grid_def idx by simp
qed

lemma bins_example: "bins [1, 3, 12] = [0, 5, 10]"
  by (simp add: bins_def bucket_def upt_conv_Cons)

text \<open>
  Readings at minutes 1, 3 and 12 fall into the buckets 0 and 10; the bucket 5 between
  them is in the result, with no value.
\<close>

lemma resample_example: "resample_5T_mean example_frame = example_grid_frame"
  by (simp add: resample_5T_mean_def example_frame_def example_grid_frame_def bins_example
      group_def bucket_def mean_def present_def)

lemma example_on_grid: "on_grid example_grid_frame"
  by (simp add: on_grid_def wf_frame_def example_grid_frame_def upt_conv_Cons)

text \<open>
  Claim C8: the 5-minute resampling is idempotent. Resampling what resampling returned
  changes nothing, and more generally resampling any table that is on the 5-minute grid
  (one row for each bucket from the first to the last, a bucket without readings holding
  a missing value) returns that table.
\<close>

theorem resample_idempotent:
  "resample_5T_mean (resample_5T_mean frame) = resample_5T_mean frame \<and>
   (on_grid frame' \<longrightarrow> resample_5T_mean frame' = frame')"
  using resample_fixes_grid [OF resample_on_grid] resample_fixes_grid by blast

theorem resample_idempotent_witness:
  "on_grid example_grid_frame \<and> resample_5T_mean example_grid_frame = example_grid_frame \<and>
   resample_5T_mean (resample_5T_mean example_frame) = resample_5T_mean example_frame"
  using resample_idempotent [of example_frame example_grid_frame] example_on_grid by simp

subsection \<open>The example table is what loading gives\<close>

lemma bins_example_index: "bins example_index = example_index"
  by (simp add: bins_def example_index_def bucket_def upt_conv_Cons)



subsection \<open>What the callbacks return\<close>

lemma temp_traces_ok:
  "\<forall>s\<in>set sel. getitem (df_resampled g) s \<noteq> None \<Longrightarrow>
   fst (temp_traces sel fig g) = Inr (fig\<lparr>fig_data := fig_data fig @ map (temp_trace g) sel\<rparr>)"
  by (induction sel arbitrary: fig) (auto simp: add_trace_def temp_trace_def)

lemma errorbar_traces_ok:
  "\<forall>s\<in>set sel. getitem (df_resampled g) s \<noteq> None \<Longrightarrow>
   fst (errorbar_traces sel fig g) = Inr (fig\<lparr>fig_data := fig_data fig @ map (errorbar_trace g) sel\<rparr>)"
  by (induction sel arbitrary: fig) (auto simp: add_trace_def errorbar_trace_def)

lemma update_errorbars_plot_ok:
  assumes "\<forall>s\<in>set sel. getitem (df_resampled g) s \<noteq> None"
  shows "fst (update_errorbars_plot stdtr anova_rm sel g) =
     (case fst (statistical_tests stdtr anova_rm sel g) of
        Inl e \<Rightarrow> Inl e
      | Inr txt \<Rightarrow> Inr (\<lparr>fig_data = map (errorbar_trace g) sel,
                          fig_layout = Some errorbars_layout\<rparr>, txt))"
proof -
  obtain r g1 where tr: "errorbar_traces sel Figure g = (r, g1)"
    by (cases "errorbar_traces sel Figure g")
  have g1: "g1 = g" using errorbar_traces_state [of sel Figure g] tr by simp
  have r: "r = Inr \<lparr>fig_data = map (errorbar_trace g) sel, fig_layout = None\<rparr>"
    using errorbar_traces_ok [OF assms, of Figure] tr by (simp add: Figure_def)
  obtain r2 g2 where st: "statistical_tests stdtr anova_rm sel g = (r2, g2)"
    by (cases "statistical_tests stdtr anova_rm sel g")
  show ?thesis
    using tr g1 r st by (cases r2) (auto simp: update_errorbars_plot_def update_layout_def)
qed

text \<open>
  Claim C7: for every selection of columns of the resampled table, the empty one
  included, \<open>update_temp_plot\<close> returns a chart with exactly one series per
  selected channel, in the order of the selection: the x-values are the bucket
  timestamps, the y-values that channel's resampled temperatures, the mode is
  lines+markers. The empty selection gives a chart with no series and no error.
\<close>

theorem update_temp_plot_traces:
  assumes "\<forall>s\<in>set sel. getitem (df_resampled g) s \<noteq> None"
  shows "fst (update_temp_plot sel g) =
     Inr \<lparr>fig_data =
            map (\<lambda>s. \<lparr>trace_x = index (df_resampled g),
                      trace_y = the (getitem (df_resampled g) s),
                      trace_mode = ''lines+markers'', trace_name = s, error_y = None\<rparr>) sel,
          fig_layout = Some temp_layout\<rparr>"
proof -
  obtain r g1 where tr: "temp_traces sel Figure g = (r, g1)"
    by (cases "temp_traces sel Figure g")
  have "r = Inr \<lparr>fig_data = map (temp_trace g) sel, fig_layout = None\<rparr>"
    using temp_traces_ok [OF assms, of Figure] tr by (simp add: Figure_def)
  then show ?thesis
    using tr by (simp add: update_temp_plot_def update_layout_def temp_trace_def)
qed

lemma example_columns:
  "getitem (df_resampled example_globals) ''TempC_target_1331'' =
     Some [Some 20, Some 21, Some 22, Some 23, Some 24, Some 25]"
  "getitem (df_resampled example_globals) ''TempC_target_1370'' =
     Some [Some 20, Some 20, Some 20, Some 20, Some 20, Some 20]"
  "getitem (df_resampled example_globals) ''TempC_target_1376'' =
     Some [Some 19, None, Some 21, Some 21, Some 21, Some 23]"
  by (simp_all add: getitem_def example_globals_def example_resampled_def)

lemma example_index_resampled: "index (df_resampled example_globals) = example_index"
  by (simp add: example_globals_def example_resampled_def)

theorem update_temp_plot_traces_witness:
  "fst (update_temp_plot [] example_globals) = Inr \<lparr>fig_data = [], fig_layout = Some temp_layout\<rparr> \<and>
   fst (update_temp_plot [''TempC_target_1370'', ''TempC_target_1331''] example_globals) =
     Inr \<lparr>fig_data =
            [\<lparr>trace_x = example_index,
              trace_y = [Some 20, Some 20, Some 20, Some 20, Some 20, Some 20],
              trace_mode = ''lines+markers'', trace_name = ''TempC_target_1370'', error_y = None\<rparr>,
             \<lparr>trace_x = example_index,
              trace_y = [Some 20, Some 21, Some 22, Some 23, Some 24, Some 25],
              trace_mode = ''lines+markers'', trace_name = ''TempC_target_1331'', error_y = None\<rparr>],
          fig_layout = Some temp_layout\<rparr>"
  using update_temp_plot_traces [of "[]" example_globals]
    update_temp_plot_traces [of "[''TempC_target_1370'', ''TempC_target_1331'']" example_globals]
  by (simp add: example_columns example_index_resampled)

text \<open>
  Claim C5: for a selection of no channel or of exactly one channel,
  \<open>update_errorbars_plot\<close> returns the chart and the empty string as its summary.
\<close>

theorem no_summary_below_two:
  assumes "length sel < 2" and "\<forall>s\<in>set sel. getitem (df_resampled g) s \<noteq> None"
  shows "fst (update_errorbars_plot stdtr anova_rm sel g) =
     Inr (\<lparr>fig_data = map (errorbar_trace g) sel, fig_layout = Some errorbars_layout\<rparr>, '''')"
proof -
  have "fst (statistical_tests stdtr anova_rm sel g) = Inr ''''"
    using assms(1) by (simp add: statistical_tests_def)
  then show ?thesis using update_errorbars_plot_ok [OF assms(2), of stdtr anova_rm] by simp
qed

theorem no_summary_below_two_witness:
  "fst (update_errorbars_plot student_t1 stub_anova_rm [] example_globals) =
     Inr (\<lparr>fig_data = [], fig_layout = Some errorbars_layout\<rparr>, '''') \<and>
   fst (update_errorbars_plot student_t1 stub_anova_rm [''TempC_target_1376''] example_globals) =
     Inr (\<lparr>fig_data = [errorbar_trace example_globals ''TempC_target_1376''],
          fig_layout = Some errorbars_layout\<rparr>, '''')"
  using no_summary_below_two [of "[]" example_globals student_t1 stub_anova_rm]
    no_summary_below_two [of "[''TempC_target_1376'']" example_globals student_t1 stub_anova_rm]
  by (simp add: example_columns)

subsection \<open>The timestamps after loading\<close>

lemma to_datetime_Inr: "to_datetime p xs = Inr ts \<Longrightarrow> map Some ts = map p xs"
  by (induction xs arbitrary: ts) (auto split: option.splits sum.splits)

lemma index_replace: "index (replace old new frame) = index frame"
  by (simp add: replace_def)

text \<open>
  Claim C10: the replacement of the sentinel does not touch the timestamps. After a
  successful load the index of the table is the list of the parsed timestamps of the
  source rows, so the two sets of timestamps are equal, also for a timestamp whose
  number is -9999.
\<close>

theorem timestamps_survive_replace:
  assumes "load strptime raw = Inr g"
  shows "map Some (index (df g)) = map strptime (TIMESTAMP raw) \<and>
         set (index (df g)) = {t. \<exists>s. s \<in> set (TIMESTAMP raw) \<and> strptime s = Some t}"
proof -
  obtain ts where ts: "to_datetime strptime (TIMESTAMP raw) = Inr ts"
    using assms by (cases "to_datetime strptime (TIMESTAMP raw)") (auto simp: load_def)
  have "df g = replace (- 9999) None (set_index ts raw)"
    using assms ts by (auto simp: load_def Let_def split: sum.splits)
  then have ix: "index (df g) = ts"
    by (simp add: index_replace set_index_def)
  have m: "map Some ts = map strptime (TIMESTAMP raw)"
    using ts by (rule to_datetime_Inr)
  have img: "Some ` set ts = strptime ` set (TIMESTAMP raw)"
    using arg_cong [OF m, of set] by simp
  have "set ts = {t. \<exists>s. s \<in> set (TIMESTAMP raw) \<and> strptime s = Some t}"
  proof (rule set_eqI)
    fix t
    have "t \<in> set ts \<longleftrightarrow> Some t \<in> Some ` set ts" by blast
    also have "\<dots> \<longleftrightarrow> Some t \<in> strptime ` set (TIMESTAMP raw)" by (simp only: img)
    also have "\<dots> \<longleftrightarrow> (\<exists>s. s \<in> set (TIMESTAMP raw) \<and> strptime s = Some t)"
      by (metis (no_types) image_iff)
    finally show "t \<in> set ts \<longleftrightarrow> t \<in> {t. \<exists>s. s \<in> set (TIMESTAMP raw) \<and> strptime s = Some t}"
      by simp
  qed
  then show ?thesis using ix m by simp
qed

lemma load_example_1969: "load example_strptime example_raw_1969 = Inr example_globals_1969"
  by (simp add: load_def example_raw_1969_def example_strptime_def set_index_def replace_def
      replace_cell_def getitems_def getitem_def CHANNELS_def example_globals_1969_def
      resample_5T_mean_def bins_def bucket_def group_def mean_def present_def)

theorem timestamps_survive_replace_witness:
  "load example_strptime example_raw_1969 = Inr example_globals_1969 \<and>
   index (df example_globals_1969) = [- 9999] \<and>
   map Some (index (df example_globals_1969)) = map example_strptime (TIMESTAMP example_raw_1969) \<and>
   set (index (df example_globals_1969)) =
     {t. \<exists>s. s \<in> set (TIMESTAMP example_raw_1969) \<and> example_strptime s = Some t}"
  using timestamps_survive_replace [OF load_example_1969] load_example_1969
  by (simp add: example_globals_1969_def)

subsection \<open>The error bars: a rolling standard deviation over 5 buckets\<close>

lemma errorbar_traces_Inr:
  "fst (errorbar_traces sel fig0 g) = Inr fig \<Longrightarrow> \<forall>s\<in>set sel. getitem (df_resampled g) s \<noteq> None"
  by (induction sel arbitrary: fig0) (auto split: option.splits simp: Let_def)

lemma update_errorbars_plot_Inr:
  assumes "fst (update_errorbars_plot stdtr anova_rm sel g) = Inr (fig, txt)"
  shows "(\<forall>s\<in>set sel. getitem (df_resampled g) s \<noteq> None) \<and>
         fig = \<lparr>fig_data = map (errorbar_trace g) sel, fig_layout = Some errorbars_layout\<rparr> \<and>
         fst (statistical_tests stdtr anova_rm sel g) = Inr txt"
proof -
  obtain r g1 where tr: "errorbar_traces sel Figure g = (r, g1)"
    by (cases "errorbar_traces sel Figure g")
  obtain fig0 where r: "r = Inr fig0"
    using assms tr by (cases r) (auto simp: update_errorbars_plot_def)
  have cols: "\<forall>s\<in>set sel. getitem (df_resampled g) s \<noteq> None"
    using errorbar_traces_Inr [of sel Figure g fig0] tr r by simp
  show ?thesis
    using assms update_errorbars_plot_ok [OF cols, of stdtr anova_rm] cols
    by (auto split: sum.splits)
qed

lemma present_short: "length (present w) < length w \<longleftrightarrow> None \<in> set w"
  by (induction w) (auto simp: present_def less_Suc_eq_le)

lemma window_start: "i < 4 \<Longrightarrow> length (window 5 ys i) < 5"
  by (simp add: window_def)

lemma window_five:
  assumes "4 \<le> i" and "i < length ys"
  shows "window 5 ys i = [ys ! (i - 4), ys ! (i - 3), ys ! (i - 2), ys ! (i - 1), ys ! i]"
proof -
  obtain m where i: "i = m + 4"
    using assms(1) by (metis le_add_diff_inverse2)
  have len: "m + 4 < length ys" using assms(2) i by simp
  have "drop m (take (Suc (m + 4)) ys) =
        [ys ! m, ys ! (m + 1), ys ! (m + 2), ys ! (m + 3), ys ! (m + 4)]"
  proof (rule nth_equalityI)
    show "length (drop m (take (Suc (m + 4)) ys)) =
          length [ys ! m, ys ! (m + 1), ys ! (m + 2), ys ! (m + 3), ys ! (m + 4)]"
      using len by simp
  next
    fix j assume "j < length (drop m (take (Suc (m + 4)) ys))"
    then have "j < 5" using len by simp
    then consider "j = 0" | "j = 1" | "j = 2" | "j = 3" | "j = 4" by linarith
    then show "drop m (take (Suc (m + 4)) ys) ! j =
          [ys ! m, ys ! (m + 1), ys ! (m + 2), ys ! (m + 3), ys ! (m + 4)] ! j"
      using len by cases (simp_all add: add.commute)
  qed
  then show ?thesis by (simp add: window_def i add.commute)
qed

lemma rolling_std_nth:
  assumes "i < length ys"
  shows "rolling_std 5 ys ! i =
     (if i < 4 then None
      else if None \<in> set [ys ! (i - 4), ys ! (i - 3), ys ! (i - 2), ys ! (i - 1), ys ! i]
           then None
           else std [ys ! (i - 4), ys ! (i - 3), ys ! (i - 2), ys ! (i - 1), ys ! i])"
proof (cases "i < 4")
  case True
  have "length (present (window 5 ys i)) \<le> length (window 5 ys i)"
    by (simp add: present_def)
  then have "length (present (window 5 ys i)) < 5"
    using window_start [OF True, of ys] by linarith
  then show ?thesis using assms True by (simp add: rolling_std_def)
next
  case False
  then have w: "window 5 ys i = [ys ! (i - 4), ys ! (i - 3), ys ! (i - 2), ys ! (i - 1), ys ! i]"
    using window_five assms by simp
  have lw: "length (window 5 ys i) = 5" by (simp add: w)
  have key: "(length (present (window 5 ys i)) < 5) = (None \<in> set (window 5 ys i))"
    using present_short [of "window 5 ys i"] unfolding lw .
  have "rolling_std 5 ys ! i =
        (if length (present (window 5 ys i)) < 5 then None else std (window 5 ys i))"
    using assms by (simp add: rolling_std_def)
  also have "\<dots> = (if None \<in> set (window 5 ys i) then None else std (window 5 ys i))"
    by (simp only: key)
  finally show ?thesis using False by (simp only: w if_False)
qed

lemma length_rolling_std: "length (rolling_std w ys) = length ys"
  by (simp add: rolling_std_def)

lemma present_all: "None \<notin> set w \<Longrightarrow> present w = map the w"
  by (induction w) (auto simp: present_def intro: option.exhaust_sel)

lemma std_five:
  assumes "None \<notin> set w" and "length w = 5"
  shows "std w =
         Some (sqrt (sum_list (map (\<lambda>x. (the x - sum_list (map the w) / 5)\<^sup>2) w) / 4))"
proof -
  have p: "present w = map the w" using assms(1) by (rule present_all)
  have "map (\<lambda>x. (x - sum_list (map the w) / 5)\<^sup>2) (map the w) =
        map (\<lambda>x. (the x - sum_list (map the w) / 5)\<^sup>2) w"
    by (simp add: comp_def)
  then show ?thesis
    using assms(2) by (simp add: std_def p Let_def comp_def)
qed

text \<open>
  Claim C2: in the chart \<open>update_errorbars_plot\<close> returns, the error value attached to
  bucket \<open>i\<close> (counted from 0) of a channel is the standard deviation over the window of
  the 5 buckets ending at \<open>i\<close>. It is defined only from \<open>i = 4\<close> on: for \<open>i < 4\<close> it
  is missing (\<open>None\<close>, which is not \<open>Some 0\<close>). From \<open>i = 4\<close> on it is missing when
  one of the five values is, and otherwise it is the sample standard deviation of the five
  values: with \<open>m\<close> their mean, the square root of the sum of the squared differences from
  \<open>m\<close>, divided by 4.
\<close>

theorem rolling_std_error_bars:
  assumes "fst (update_errorbars_plot stdtr anova_rm sel g) = Inr (fig, txt)"
      and "k < length sel"
      and "getitem (df_resampled g) (sel ! k) = Some ys"
      and "i < length ys"
  shows "\<exists>eb. error_y (fig_data fig ! k) = Some eb \<and>
           eb_type eb = ''data'' \<and>
           length (eb_array eb) = length ys \<and>
           eb_array eb ! i =
             (let w = [ys ! (i - 4), ys ! (i - 3), ys ! (i - 2), ys ! (i - 1), ys ! i] in
              if i < 4 then None
              else if None \<in> set w then None
              else (let m = sum_list (map the w) / 5 in
                    Some (sqrt (sum_list (map (\<lambda>x. (the x - m)\<^sup>2) w) / 4))))"
proof -
  define w where "w = [ys ! (i - 4), ys ! (i - 3), ys ! (i - 2), ys ! (i - 1), ys ! i]"
  have lw: "length w = 5" by (simp add: w_def)
  have fig: "fig = \<lparr>fig_data = map (errorbar_trace g) sel, fig_layout = Some errorbars_layout\<rparr>"
    using update_errorbars_plot_Inr [OF assms(1)] by simp
  have eb: "error_y (fig_data fig ! k) =
        Some \<lparr>eb_type = ''data'', eb_array = rolling_std 5 ys, eb_visible = True,
              eb_color = ''gray'', eb_thickness = 1.5, eb_width = 3\<rparr>"
    using assms(2,3) by (simp add: fig errorbar_trace_def)
  have "rolling_std 5 ys ! i =
        (if i < 4 then None else if None \<in> set w then None else std w)"
    using rolling_std_nth [OF assms(4)] unfolding w_def .
  also have "\<dots> =
        (if i < 4 then None
         else if None \<in> set w then None
         else (let m = sum_list (map the w) / 5 in
               Some (sqrt (sum_list (map (\<lambda>x. (the x - m)\<^sup>2) w) / 4))))"
    using std_five [OF _ lw] by (simp add: Let_def)
  finally have v: "rolling_std 5 ys ! i =
        (let w = [ys ! (i - 4), ys ! (i - 3), ys ! (i - 2), ys ! (i - 1), ys ! i] in
         if i < 4 then None
         else if None \<in> set w then None
         else (let m = sum_list (map the w) / 5 in
               Some (sqrt (sum_list (map (\<lambda>x. (the x - m)\<^sup>2) w) / 4))))"
    unfolding w_def Let_def .
  show ?thesis
    unfolding eb using v by (simp add: length_rolling_std)
qed

lemma example_errorbars_1331:
  "fst (update_errorbars_plot student_t1 stub_anova_rm [''TempC_target_1331''] example_globals) =
     Inr (\<lparr>fig_data = [errorbar_trace example_globals ''TempC_target_1331''],
          fig_layout = Some errorbars_layout\<rparr>, '''')"
  using update_errorbars_plot_ok [of "[''TempC_target_1331'']" example_globals student_t1 stub_anova_rm]
  by (simp add: statistical_tests_def example_columns)

lemma example_errorbars_1370:
  "fst (update_errorbars_plot student_t1 stub_anova_rm [''TempC_target_1370''] example_globals) =
     Inr (\<lparr>fig_data = [errorbar_trace example_globals ''TempC_target_1370''],
          fig_layout = Some errorbars_layout\<rparr>, '''')"
  using update_errorbars_plot_ok [of "[''TempC_target_1370'']" example_globals student_t1 stub_anova_rm]
  by (simp add: statistical_tests_def example_columns)

lemma example_errorbars_1376:
  "fst (update_errorbars_plot student_t1 stub_anova_rm [''TempC_target_1376''] example_globals) =
     Inr (\<lparr>fig_data = [errorbar_trace example_globals ''TempC_target_1376''],
          fig_layout = Some errorbars_layout\<rparr>, '''')"
  using update_errorbars_plot_ok [of "[''TempC_target_1376'']" example_globals student_t1 stub_anova_rm]
  by (simp add: statistical_tests_def example_columns)

text \<open>
  On the example table: the channel that rises by one degree per bucket (20, 21, ..., 25)
  has no error value at bucket 3 and the value \<open>sqrt (5/2)\<close> at buckets 4 and 5; the
  constant channel has the value 0 at bucket 4; the channel with a missing reading at
  bucket 1 has no error value at bucket 5, whose window holds that bucket.
\<close>

theorem rolling_std_error_bars_witness:
  "(\<exists>eb. error_y (fig_data \<lparr>fig_data = [errorbar_trace example_globals ''TempC_target_1331''],
                              fig_layout = Some errorbars_layout\<rparr> ! 0) = Some eb \<and>
         eb_type eb = ''data'' \<and> length (eb_array eb) = 6 \<and> eb_array eb ! 3 = None) \<and>
   (\<exists>eb. error_y (fig_data \<lparr>fig_data = [errorbar_trace example_globals ''TempC_target_1331''],
                              fig_layout = Some errorbars_layout\<rparr> ! 0) = Some eb \<and>
         eb_type eb = ''data'' \<and> length (eb_array eb) = 6 \<and>
         eb_array eb ! 4 = Some (sqrt (5 / 2))) \<and>
   (\<exists>eb. error_y (fig_data \<lparr>fig_data = [errorbar_trace example_globals ''TempC_target_1331''],
                              fig_layout = Some errorbars_layout\<rparr> ! 0) = Some eb \<and>
         eb_type eb = ''data'' \<and> length (eb_array eb) = 6 \<and>
         eb_array eb ! 5 = Some (sqrt (5 / 2))) \<and>
   (\<exists>eb. error_y (fig_data \<lparr>fig_data = [errorbar_trace example_globals ''TempC_target_1370''],
                              fig_layout = Some errorbars_layout\<rparr> ! 0) = Some eb \<and>
         eb_type eb = ''data'' \<and> length (eb_array eb) = 6 \<and> eb_array eb ! 4 = Some 0) \<and>
   (\<exists>eb. error_y (fig_data \<lparr>fig_data = [errorbar_trace example_globals ''TempC_target_1376''],
                              fig_layout = Some errorbars_layout\<rparr> ! 0) = Some eb \<and>
         eb_type eb = ''data'' \<and> length (eb_array eb) = 6 \<and> eb_array eb ! 5 = None)"
  using
    rolling_std_error_bars [OF example_errorbars_1331, of 0
      "[Some 20, Some 21, Some 22, Some 23, Some 24, Some 25]" 3]
    rolling_std_error_bars [OF example_errorbars_1331, of 0
      "[Some 20, Some 21, Some 22, Some 23, Some 24, Some 25]" 4]
    rolling_std_error_bars [OF example_errorbars_1331, of 0
      "[Some 20, Some 21, Some 22, Some 23, Some 24, Some 25]" 5]
    rolling_std_error_bars [OF example_errorbars_1370, of 0
      "[Some 20, Some 20, Some 20, Some 20, Some 20, Some 20]" 4]
    rolling_std_error_bars [OF example_errorbars_1376, of 0
      "[Some 19, None, Some 21, Some 21, Some 21, Some 23]" 5]
  by (simp add: example_columns Let_def) (simp add: numeral_eq_Suc)

subsection \<open>The sentinel is missing before resampling\<close>













subsection \<open>Three or more channels: the analysis of variance on the long table\<close>




lemma getitem_length:
  "wf_frame frame \<Longrightarrow> getitem frame s = Some vs \<Longrightarrow> length vs = length (index frame)"
  by (auto simp: wf_frame_def getitem_def list_all_iff dest: map_of_SomeD)




subsection \<open>Two channels: the paired test\<close>

lemma statistical_tests_pair:
  assumes "getitem (df_resampled g) s0 = Some a" and "getitem (df_resampled g) s1 = Some b"
      and "ttest_rel stdtr a b = Inr (t, p)"
  shows "fst (statistical_tests stdtr anova_rm [s0, s1] g) = Inr (paired_text s0 s1 t p)"
  using assms by (simp add: statistical_tests_def)

lemma update_errorbars_plot_pair:
  assumes "getitem (df_resampled g) s0 = Some a" and "getitem (df_resampled g) s1 = Some b"
      and "ttest_rel stdtr a b = Inr (t, p)"
  shows "fst (update_errorbars_plot stdtr anova_rm [s0, s1] g) =
         Inr (\<lparr>fig_data = [errorbar_trace g s0, errorbar_trace g s1],
              fig_layout = Some errorbars_layout\<rparr>, paired_text s0 s1 t p)"
proof -
  have cols: "\<forall>s\<in>set [s0, s1]. getitem (df_resampled g) s \<noteq> None"
    using assms(1,2) by simp
  show ?thesis
    using update_errorbars_plot_ok [OF cols, of stdtr anova_rm]
      statistical_tests_pair [OF assms, of anova_rm]
    by simp
qed

lemma ttest_rel_missing:
  assumes "length a = length b" and "None \<in> set a \<or> None \<in> set b"
  shows "ttest_rel stdtr a b = Inr (NaN, NaN)"
  using assms by (simp add: ttest_rel_def)

lemma ttest_rel_total:
  assumes "length a = length b"
  shows "\<exists>t p. ttest_rel stdtr a b = Inr (t, p)"
  using assms by (simp add: ttest_rel_def Let_def)

lemma ttest_rel_finite:
  assumes "length a = length b" and "None \<notin> set a" and "None \<notin> set b"
      and "2 \<le> length a"
      and "sqrt (sum_list (map (\<lambda>x. (x - sum_list (map2 (\<lambda>u v. the u - the v) a b) / real (length a))\<^sup>2)
                   (map2 (\<lambda>u v. the u - the v) a b)) / real (length a - 1) / real (length a)) \<noteq> 0"
  shows "ttest_rel stdtr a b =
         Inr (Finite (sum_list (map2 (\<lambda>u v. the u - the v) a b) / real (length a) /
                sqrt (sum_list (map (\<lambda>x. (x - sum_list (map2 (\<lambda>u v. the u - the v) a b) / real (length a))\<^sup>2)
                   (map2 (\<lambda>u v. the u - the v) a b)) / real (length a - 1) / real (length a))),
              Finite (2 * stdtr (length a - 1)
                (- \<bar>sum_list (map2 (\<lambda>u v. the u - the v) a b) / real (length a) /
                sqrt (sum_list (map (\<lambda>x. (x - sum_list (map2 (\<lambda>u v. the u - the v) a b) / real (length a))\<^sup>2)
                   (map2 (\<lambda>u v. the u - the v) a b)) / real (length a - 1) / real (length a))\<bar>)))"
proof -
  have n: "length (map2 (\<lambda>u v. the u - the v) a b) = length a"
    using assms(1) by simp
  have n2: "\<not> length a < 2" using assms(4) by simp
  show ?thesis
    unfolding ttest_rel_def Let_def n
    using assms(1,2,3,5) n2 by (simp only: if_False if_True not_False_eq_True simp_thms)
qed

text \<open>
  Claim C1, as the program has it: for a selection of exactly two columns of the resampled
  table the paired test is run over all the buckets of the table, the two columns as they
  are. It never aborts: the callback returns the chart and the summary. But a bucket whose
  value is missing in either channel is not left out of the test: it makes the statistic
  and the p-value undefined, and the summary reads \<open>t-stat = nan, p-value = nan\<close>. When
  no value is missing, the statistic is the mean of the differences over all \<open>n\<close>
  buckets divided by its standard error (when \<open>n\<close> is at least 2 and the standard error
  is not 0), and the p-value is twice the distribution function, with \<open>n - 1\<close> degrees
  of freedom, at minus its absolute value.
\<close>

theorem paired_test_over_all_buckets:
  assumes "wf_frame (df_resampled g)"
      and "getitem (df_resampled g) s0 = Some a"
      and "getitem (df_resampled g) s1 = Some b"
  shows "\<exists>t p.
           fst (update_errorbars_plot stdtr anova_rm [s0, s1] g) =
             Inr (\<lparr>fig_data = [errorbar_trace g s0, errorbar_trace g s1],
                  fig_layout = Some errorbars_layout\<rparr>,
                  ''Paired t-test between '' @ s0 @ '' and '' @ s1 @ '':'' @ [CHR 0x0A] @
                  ''t-stat = '' @ format_4f t @ '', p-value = '' @ format_4f p) \<and>
           (if None \<in> set a \<or> None \<in> set b
            then t = NaN \<and> p = NaN \<and> format_4f t = ''nan'' \<and> format_4f p = ''nan''
            else (let d = map2 (\<lambda>u v. the u - the v) a b;
                      n = length (index (df_resampled g));
                      dm = sum_list d / real n;
                      se = sqrt (sum_list (map (\<lambda>x. (x - dm)\<^sup>2) d) / real (n - 1) / real n)
                  in 2 \<le> n \<and> se \<noteq> 0 \<longrightarrow>
                     t = Finite (dm / se) \<and>
                     p = Finite (2 * stdtr (n - 1) (- \<bar>dm / se\<bar>))))"
proof -
  have la: "length a = length (index (df_resampled g))"
    using getitem_length [OF assms(1,2)] .
  have lb: "length b = length (index (df_resampled g))"
    using getitem_length [OF assms(1,3)] .
  have len: "length a = length b" using la lb by simp
  obtain t p where tp: "ttest_rel stdtr a b = Inr (t, p)"
    using ttest_rel_total [OF len] by blast
  have res: "fst (update_errorbars_plot stdtr anova_rm [s0, s1] g) =
             Inr (\<lparr>fig_data = [errorbar_trace g s0, errorbar_trace g s1],
                  fig_layout = Some errorbars_layout\<rparr>,
                  ''Paired t-test between '' @ s0 @ '' and '' @ s1 @ '':'' @ [CHR 0x0A] @
                  ''t-stat = '' @ format_4f t @ '', p-value = '' @ format_4f p)"
    using update_errorbars_plot_pair [OF assms(2,3) tp, of anova_rm]
    by (simp add: paired_text_def)
  have val: "if None \<in> set a \<or> None \<in> set b
            then t = NaN \<and> p = NaN \<and> format_4f t = ''nan'' \<and> format_4f p = ''nan''
            else (let d = map2 (\<lambda>u v. the u - the v) a b;
                      n = length (index (df_resampled g));
                      dm = sum_list d / real n;
                      se = sqrt (sum_list (map (\<lambda>x. (x - dm)\<^sup>2) d) / real (n - 1) / real n)
                  in 2 \<le> n \<and> se \<noteq> 0 \<longrightarrow>
                     t = Finite (dm / se) \<and>
                     p = Finite (2 * stdtr (n - 1) (- \<bar>dm / se\<bar>)))"
  proof (cases "None \<in> set a \<or> None \<in> set b")
    case True
    then show ?thesis using ttest_rel_missing [OF len True, of stdtr] tp by simp
  next
    case False
    then have na: "None \<notin> set a" and nb: "None \<notin> set b" by auto
    show ?thesis
      using ttest_rel_finite [OF len na nb, of stdtr] tp False
      unfolding Let_def la [symmetric]
      by auto
  qed
  show ?thesis using res val by blast
qed

lemma example_pair_wf: "wf_frame (df_resampled example_pair_globals)"
  by (simp add: wf_frame_def example_pair_globals_def)

lemma example_pair_columns:
  "getitem (df_resampled example_pair_globals) ''TempC_target_1331'' = Some [Some 20, Some 22]"
  "getitem (df_resampled example_pair_globals) ''TempC_target_1370'' = Some [Some 20, Some 20]"
  "getitem (df_resampled example_pair_globals) ''TempC_target_1376'' = Some [Some 21, None]"
  by (simp_all add: getitem_def example_pair_globals_def)

lemma example_pair_index: "length (index (df_resampled example_pair_globals)) = 2"
  by (simp add: example_pair_globals_def)

lemma student_t1_minus_one: "student_t1 \<nu> (- 1) = 1 / 4"
  by (simp add: student_t1_def arctan_minus arctan_one)

text \<open>
  On the two-bucket example: the channels 20, 22 and 20, 20 differ by 0 and 2, which gives
  the statistic 1 and, with one degree of freedom, the p-value 1/2; the channel whose
  second bucket is missing gives the undefined result.
\<close>

theorem paired_test_over_all_buckets_witness:
  "(\<exists>t p. fst (update_errorbars_plot student_t1 stub_anova_rm
                 [''TempC_target_1331'', ''TempC_target_1370''] example_pair_globals) =
             Inr (\<lparr>fig_data = [errorbar_trace example_pair_globals ''TempC_target_1331'',
                              errorbar_trace example_pair_globals ''TempC_target_1370''],
                  fig_layout = Some errorbars_layout\<rparr>,
                  ''Paired t-test between TempC_target_1331 and TempC_target_1370:'' @ [CHR 0x0A] @
                  ''t-stat = '' @ format_4f t @ '', p-value = '' @ format_4f p) \<and>
           t = Finite 1 \<and> p = Finite (1 / 2)) \<and>
   (\<exists>t p. fst (update_errorbars_plot student_t1 stub_anova_rm
                 [''TempC_target_1331'', ''TempC_target_1376''] example_pair_globals) =
             Inr (\<lparr>fig_data = [errorbar_trace example_pair_globals ''TempC_target_1331'',
                              errorbar_trace example_pair_globals ''TempC_target_1376''],
                  fig_layout = Some errorbars_layout\<rparr>,
                  ''Paired t-test between TempC_target_1331 and TempC_target_1376:'' @ [CHR 0x0A] @
                  ''t-stat = '' @ format_4f t @ '', p-value = '' @ format_4f p) \<and>
           t = NaN \<and> p = NaN \<and> format_4f t = ''nan'' \<and> format_4f p = ''nan'')"
proof -
  have a: "\<exists>t p. fst (update_errorbars_plot student_t1 stub_anova_rm
                 [''TempC_target_1331'', ''TempC_target_1370''] example_pair_globals) =
             Inr (\<lparr>fig_data = [errorbar_trace example_pair_globals ''TempC_target_1331'',
                              errorbar_trace example_pair_globals ''TempC_target_1370''],
                  fig_layout = Some errorbars_layout\<rparr>,
                  ''Paired t-test between TempC_target_1331 and TempC_target_1370:'' @ [CHR 0x0A] @
                  ''t-stat = '' @ format_4f t @ '', p-value = '' @ format_4f p) \<and>
           t = Finite 1 \<and> p = Finite (1 / 2)"
    using paired_test_over_all_buckets [OF example_pair_wf example_pair_columns(1)
        example_pair_columns(2), of student_t1 stub_anova_rm]
    by (simp add: example_pair_index Let_def student_t1_minus_one)
  have b: "\<exists>t p. fst (update_errorbars_plot student_t1 stub_anova_rm
                 [''TempC_target_1331'', ''TempC_target_1376''] example_pair_globals) =
             Inr (\<lparr>fig_data = [errorbar_trace example_pair_globals ''TempC_target_1331'',
                              errorbar_trace example_pair_globals ''TempC_target_1376''],
                  fig_layout = Some errorbars_layout\<rparr>,
                  ''Paired t-test between TempC_target_1331 and TempC_target_1376:'' @ [CHR 0x0A] @
                  ''t-stat = '' @ format_4f t @ '', p-value = '' @ format_4f p) \<and>
           t = NaN \<and> p = NaN \<and> format_4f t = ''nan'' \<and> format_4f p = ''nan''"
    using paired_test_over_all_buckets [OF example_pair_wf example_pair_columns(1)
        example_pair_columns(3), of student_t1 stub_anova_rm]
    by simp
  show ?thesis using a b by blast
qed

text \<open>
  The claim fails on the six-bucket example: the third channel misses one bucket, five
  buckets are present in both channels, and the result of the test is undefined, whatever
  the distribution function.
\<close>

theorem missing_bucket_undefined_test:
  "length (spec_complete_pairs [Some 20, Some 21, Some 22, Some 23, Some 24, Some 25]
             [Some 19, None, Some 21, Some 21, Some 21, Some 23]) = 5 \<and>
   getitem (df_resampled example_globals) ''TempC_target_1331'' =
     Some [Some 20, Some 21, Some 22, Some 23, Some 24, Some 25] \<and>
   getitem (df_resampled example_globals) ''TempC_target_1376'' =
     Some [Some 19, None, Some 21, Some 21, Some 21, Some 23] \<and>
   (\<forall>stdtr anova_rm.
      fst (update_errorbars_plot stdtr anova_rm
             [''TempC_target_1331'', ''TempC_target_1376''] example_globals) =
        Inr (\<lparr>fig_data = [errorbar_trace example_globals ''TempC_target_1331'',
                         errorbar_trace example_globals ''TempC_target_1376''],
             fig_layout = Some errorbars_layout\<rparr>,
             ''Paired t-test between TempC_target_1331 and TempC_target_1376:'' @ [CHR 0x0A] @
             ''t-stat = nan, p-value = nan''))"
proof -
  have tt: "ttest_rel stdtr [Some 20, Some 21, Some 22, Some 23, Some 24, Some 25]
              [Some 19, None, Some 21, Some 21, Some 21, Some 23] = Inr (NaN, NaN)" for stdtr
    by (rule ttest_rel_missing) simp_all
  have "fst (update_errorbars_plot stdtr anova_rm
             [''TempC_target_1331'', ''TempC_target_1376''] example_globals) =
        Inr (\<lparr>fig_data = [errorbar_trace example_globals ''TempC_target_1331'',
                         errorbar_trace example_globals ''TempC_target_1376''],
             fig_layout = Some errorbars_layout\<rparr>,
             ''Paired t-test between TempC_target_1331 and TempC_target_1376:'' @ [CHR 0x0A] @
             ''t-stat = nan, p-value = nan'')" for stdtr anova_rm
    using update_errorbars_plot_pair [OF example_columns(1) example_columns(3) tt, of stdtr anova_rm]
    by (simp add: paired_text_def)
  then show ?thesis
    by (simp add: example_columns spec_complete_pairs_def)
qed

subsection \<open>The format \<open>.4f\<close>\<close>























subsection \<open>Two channels: the summary text\<close>











end
